theory Spec2Isabelle
  imports Complex_Main
begin

section \<open>Strings\<close>

text \<open>
  A Python \<open>str\<close> is modelled as a \<open>string\<close>, a list of 8-bit characters read as the code
  points below 256. \<open>py_isspace\<close> lists the code points below 256 for which Python's
  \<open>str.isspace\<close> holds; they are what \<open>str.strip()\<close> removes from both ends.
\<close>

definition py_isspace :: "char \<Rightarrow> bool" where
  "py_isspace c = ((of_char c :: nat) \<in> {9, 10, 11, 12, 13, 28, 29, 30, 31, 32, 133, 160})"

definition py_strip :: "string \<Rightarrow> string" where
  "py_strip s = rev (dropWhile py_isspace (rev (dropWhile py_isspace s)))"

text \<open>A blank string is empty or consists of whitespace only: \<open>not q.strip()\<close>.\<close>

definition blank :: "string \<Rightarrow> bool" where
  "blank s = list_all py_isspace s"

section \<open>Query partitioner: \<open>split_keywords\<close> (routers/search\_paper.py)\<close>

text \<open>The character class \<open>[,\n;]\<close> of the separator pattern.\<close>

definition is_sep :: "char \<Rightarrow> bool" where
  "is_sep c = (c = CHR '','' \<or> c = CHR 0x0A \<or> c = CHR '';'')"

text \<open>
  \<open>re.split(r"[,\n;]+", s)\<close>: the pieces of \<open>s\<close> between the maximal runs of separator
  characters. A leading or trailing run leaves an empty piece at that end, as in Python.
\<close>

function re_split :: "string \<Rightarrow> string list" where
  "re_split s =
     (case dropWhile (\<lambda>c. \<not> is_sep c) s of
        [] \<Rightarrow> [s]
      | c # rest \<Rightarrow> takeWhile (\<lambda>c. \<not> is_sep c) s # re_split (dropWhile is_sep rest))"
  by pat_completeness auto
termination
proof (relation "measure length")
  show "wf (measure length)" by simp
next
  fix s :: string and c rest
  assume h: "dropWhile (\<lambda>c. \<not> is_sep c) s = c # rest"
  have "length (dropWhile is_sep rest) \<le> length rest"
    by (rule length_dropWhile_le)
  moreover have "length (c # rest) \<le> length s"
    unfolding h [symmetric] by (rule length_dropWhile_le)
  ultimately show "(dropWhile is_sep rest, s) \<in> measure length"
    by simp
qed

declare re_split.simps [simp del]

text \<open>
  \<open>parts = [p.strip() for p in re.split(...) if p and p.strip()]\<close>, then
  \<open>return parts if parts else [q.strip()]\<close>.
\<close>

definition split_keywords :: "string \<Rightarrow> string list" where
  "split_keywords q =
     (let parts = map py_strip (filter (\<lambda>p. p \<noteq> [] \<and> py_strip p \<noteq> []) (re_split q))
      in if parts \<noteq> [] then parts else [py_strip q])"

section \<open>Paper records (the \<open>final_paper\<close> dictionary)\<close>

text \<open>
  The dictionaries that flow through the pipeline are modelled as records whose fields carry
  the types of the upstream schema; a field that is absent or \<open>null\<close> is \<open>None\<close>.
  \<open>isFreelyAvailable\<close> keeps only the truth value of the stored object, which is all the
  scorer reads. Python floats are modelled as reals: rounding error of the floating-point
  operations is not part of the model.
\<close>

record paper =
  title :: "string option"
  authors :: "string list"
  doi :: "string option"
  citationCount :: "int option"
  publisher :: "string option"
  yearPublished :: "int option"
  abstract :: "string option"
  isFreelyAvailable :: bool
  downloadUrl :: "string option"
  journalTitle :: "string option"
  issn :: "string option"
  quartile :: "string option"
  h_index :: "real option"
  sjrScore :: "real option"
  impactFactor :: "real option"
  sourceKeyword :: string
  qualityScore :: real

section \<open>Quality scorer\<close>

text \<open>
  \<open>str.upper()\<close> on the ASCII letters. Other characters are left alone: no character
  outside \<open>a..z\<close> has an upper-case form that is part of a key of \<open>quartile_scores\<close>.
\<close>

definition py_upper_char :: "char \<Rightarrow> char" where
  "py_upper_char c =
     (case map_of (zip ''abcdefghijklmnopqrstuvwxyz'' ''ABCDEFGHIJKLMNOPQRSTUVWXYZ'') c of
        Some u \<Rightarrow> u
      | None \<Rightarrow> c)"

definition py_upper :: "string \<Rightarrow> string" where
  "py_upper s = map py_upper_char s"

text \<open>
  \<open>round(score, 2)\<close>: rounding to two decimals, a tie going to the even neighbour.
\<close>

definition py_round2 :: "real \<Rightarrow> real" where
  "py_round2 x =
     (let y = x * 100; f = \<lfloor>y\<rfloor>; d = y - of_int f
      in (if d < 1 / 2 then of_int f
          else if 1 / 2 < d then of_int (f + 1)
          else if even f then of_int f else of_int (f + 1)) / 100)"

text \<open>\<open>quartile_scores = {"Q1": 20, "Q2": 15, "Q3": 10, "Q4": 5}\<close>\<close>

definition quartile_scores :: "string \<Rightarrow> real option" where
  "quartile_scores = [''Q1'' \<mapsto> 20, ''Q2'' \<mapsto> 15, ''Q3'' \<mapsto> 10, ''Q4'' \<mapsto> 5]"

text \<open>
  \<open>calculate_quality_score\<close> of routers/search\_paper.py adds seven terms to
  \<open>score = 0.0\<close>, one guarded block each; every block is a function here, in the order
  of the source. \<open>current_year\<close> stands for \<open>datetime.now().year\<close>.
\<close>

definition sjr_points :: "paper \<Rightarrow> real" where
  "sjr_points p =
     (case sjrScore p of Some sjr \<Rightarrow> min 40 (40 * (1 - exp (- sjr / 3))) | None \<Rightarrow> 0)"

definition h_index_points :: "paper \<Rightarrow> real" where
  "h_index_points p =
     (case h_index p of Some h \<Rightarrow> min 30 (30 * (min h 200 / 200)) | None \<Rightarrow> 0)"

definition quartile_points :: "paper \<Rightarrow> real" where
  "quartile_points p =
     (case quartile p of
        Some q \<Rightarrow> (case quartile_scores (py_upper q) of Some v \<Rightarrow> v | None \<Rightarrow> 0)
      | None \<Rightarrow> 0)"

definition citation_points :: "paper \<Rightarrow> real" where
  "citation_points p =
     (case citationCount p of
        Some cites \<Rightarrow> if cites > 0 then min 30 (log 10 (of_int (cites + 1)) * 10) else 0
      | None \<Rightarrow> 0)"

definition recency_points :: "int \<Rightarrow> paper \<Rightarrow> real" where
  "recency_points current_year p =
     (case yearPublished p of
        Some year \<Rightarrow>
          (let years_old = current_year - year
           in if years_old \<le> 5 then of_int (max (10 - years_old * 2) 0) else 0)
      | None \<Rightarrow> 0)"

definition open_access_points :: "paper \<Rightarrow> real" where
  "open_access_points p = (if isFreelyAvailable p then 5 else 0)"

definition abstract_points :: "paper \<Rightarrow> real" where
  "abstract_points p = (case abstract p of Some a \<Rightarrow> if a \<noteq> [] then 5 else 0 | None \<Rightarrow> 0)"

definition calculate_quality_score :: "int \<Rightarrow> paper \<Rightarrow> real" where
  "calculate_quality_score current_year p =
     py_round2 (0 + sjr_points p + h_index_points p + quartile_points p + citation_points p
                + recency_points current_year p + open_access_points p + abstract_points p)"

text \<open>
  \<open>calc_quality_score\<close> of service/research\_service.py; the body of
  \<open>calculate_quality_score\<close> in routers/fetch\_data.py is the same. The guards are
  truth tests (\<open>if paper.get('sjrScore')\<close>), the SJR and h-index terms are linear with a
  cap, and the quartile is looked up as it is written.
\<close>

definition sjr_points_linear :: "paper \<Rightarrow> real" where
  "sjr_points_linear p =
     (case sjrScore p of Some sjr \<Rightarrow> if sjr \<noteq> 0 then min (sjr * 10) 40 else 0 | None \<Rightarrow> 0)"

definition h_index_points_linear :: "paper \<Rightarrow> real" where
  "h_index_points_linear p =
     (case h_index p of Some h \<Rightarrow> if h \<noteq> 0 then min (h / 5) 30 else 0 | None \<Rightarrow> 0)"

definition quartile_points_exact :: "paper \<Rightarrow> real" where
  "quartile_points_exact p =
     (case quartile p of
        Some q \<Rightarrow> if q \<noteq> [] then (case quartile_scores q of Some v \<Rightarrow> v | None \<Rightarrow> 0) else 0
      | None \<Rightarrow> 0)"

definition recency_points_truthy :: "int \<Rightarrow> paper \<Rightarrow> real" where
  "recency_points_truthy current_year p =
     (case yearPublished p of
        Some year \<Rightarrow>
          if year \<noteq> 0 then
            (let years_old = current_year - year
             in if years_old \<le> 5 then of_int (max (10 - years_old * 2) 0) else 0)
          else 0
      | None \<Rightarrow> 0)"

definition calc_quality_score :: "int \<Rightarrow> paper \<Rightarrow> real" where
  "calc_quality_score current_year p =
     py_round2 (0 + sjr_points_linear p + h_index_points_linear p + quartile_points_exact p
                + citation_points p + recency_points_truthy current_year p
                + open_access_points p + abstract_points p)"

text \<open>A paper with no metrics at all.\<close>

definition no_metrics :: paper where
  "no_metrics =
     \<lparr>title = None, authors = [], doi = None, citationCount = None, publisher = None,
      yearPublished = None, abstract = None, isFreelyAvailable = False, downloadUrl = None,
      journalTitle = None, issn = None, quartile = None, h_index = None, sjrScore = None,
      impactFactor = None, sourceKeyword = [], qualityScore = 0\<rparr>"

section \<open>JSON values\<close>

text \<open>
  The decoded JSON that the abstract reconstruction and the secondary-metadata fetcher
  inspect with \<open>isinstance\<close> and truth tests. A dictionary is the list of its items in
  insertion order, with distinct keys.
\<close>

datatype pyval =
    PNone
  | PBool bool
  | PInt int
  | PFloat real
  | PStr string
  | PList "pyval list"
  | PDict "(string \<times> pyval) list"

text \<open>The truth value of an object: \<open>if not inverted_index\<close>.\<close>

fun truthy :: "pyval \<Rightarrow> bool" where
  "truthy PNone = False"
| "truthy (PBool b) = b"
| "truthy (PInt i) = (i \<noteq> 0)"
| "truthy (PFloat r) = (r \<noteq> 0)"
| "truthy (PStr s) = (s \<noteq> [])"
| "truthy (PList xs) = (xs \<noteq> [])"
| "truthy (PDict kvs) = (kvs \<noteq> [])"

text \<open>\<open>isinstance(v, int)\<close>: Python's \<open>bool\<close> is a subclass of \<open>int\<close>.\<close>

fun as_int :: "pyval \<Rightarrow> int option" where
  "as_int (PInt i) = Some i"
| "as_int (PBool b) = Some (if b then 1 else 0)"
| "as_int _ = None"

fun as_number :: "pyval \<Rightarrow> real option" where
  "as_number (PFloat r) = Some r"
| "as_number v = map_option of_int (as_int v)"

text \<open>The exceptions that the modelled code raises and catches.\<close>

datatype exn = TypeError | AttributeError | ValueError | HTTPStatusError nat | RequestError
  | OtherException | MarkupError

text \<open>
  \<open>max(valid_indices)\<close>: the first element is kept until a later one compares greater.
  Numbers compare by value. A comparison that involves a value that is not a number is
  modelled as raising \<open>TypeError\<close>; Python also orders two strings or two lists, but then the
  maximum is not an integer and \<open>[""] * (max_index + 1)\<close> raises \<open>TypeError\<close> inside the
  same \<open>try\<close> block, so \<open>deconstruct_abstract\<close> returns \<open>None\<close> either way.
\<close>

fun py_max_from :: "pyval \<Rightarrow> pyval list \<Rightarrow> exn + pyval" where
  "py_max_from m [] = Inr m"
| "py_max_from m (x # xs) =
     (case (as_number x, as_number m) of
        (Some a, Some b) \<Rightarrow> py_max_from (if a > b then x else m) xs
      | _ \<Rightarrow> Inl TypeError)"

fun py_max :: "pyval list \<Rightarrow> exn + pyval" where
  "py_max [] = Inl ValueError"
| "py_max (x # xs) = py_max_from x xs"

section \<open>Abstract reconstruction: \<open>deconstruct_abstract\<close>\<close>

text \<open>
  \<open>valid_indices = [val[0] for val in inverted_index.values() if isinstance(val, list) and val]\<close>:
  the first listed position of every word whose value is a non-empty list.
\<close>

fun first_positions :: "(string \<times> pyval) list \<Rightarrow> pyval list" where
  "first_positions [] = []"
| "first_positions ((word, PList (x # xs)) # rest) = x # first_positions rest"
| "first_positions ((word, val) # rest) = first_positions rest"

text \<open>
  The inner loop \<open>for index in indices\<close> with its guard
  \<open>isinstance(index, int) and 0 <= index < len(word_list)\<close>, and the outer loop over the
  items with its guard \<open>isinstance(indices, list)\<close>.
\<close>

fun write_word :: "string \<Rightarrow> pyval list \<Rightarrow> string list \<Rightarrow> string list" where
  "write_word word [] word_list = word_list"
| "write_word word (index # rest) word_list =
     write_word word rest
       (case as_int index of
          Some i \<Rightarrow> if 0 \<le> i \<and> i < int (length word_list) then word_list[nat i := word]
                    else word_list
        | None \<Rightarrow> word_list)"

fun write_words :: "(string \<times> pyval) list \<Rightarrow> string list \<Rightarrow> string list" where
  "write_words [] word_list = word_list"
| "write_words ((word, PList indices) # rest) word_list =
     write_words rest (write_word word indices word_list)"
| "write_words ((word, val) # rest) word_list = write_words rest word_list"

text \<open>\<open>" ".join(ws)\<close>\<close>

fun join_spaces :: "string list \<Rightarrow> string" where
  "join_spaces [] = []"
| "join_spaces [w] = w"
| "join_spaces (w # ws) = w @ '' '' @ join_spaces ws"

text \<open>
  The body of the \<open>try\<close> block for a dictionary, with the exceptions it can raise as
  \<open>Inl\<close>. \<open>[""] * n\<close> is the empty list for \<open>n \<le> 0\<close>.
\<close>

definition reconstruct :: "(string \<times> pyval) list \<Rightarrow> exn + string option" where
  "reconstruct items =
     (let valid_indices = first_positions items
      in if valid_indices = [] then Inr None
         else case py_max valid_indices of
                Inl e \<Rightarrow> Inl e
              | Inr max_index \<Rightarrow>
                  (case as_int max_index of
                     None \<Rightarrow> Inl TypeError
                   | Some m \<Rightarrow>
                       (let word_list = write_words items (replicate (nat (m + 1)) [])
                        in Inr (Some (py_strip (join_spaces (filter (\<lambda>w. w \<noteq> []) word_list)))))))"

text \<open>
  \<open>deconstruct_abstract\<close> (the same body in all three source files). An object that is
  not a dictionary has no \<open>values()\<close>: \<open>AttributeError\<close>. \<open>except Exception: return None\<close>
  turns every exception into \<open>None\<close>.
\<close>

definition deconstruct_abstract :: "pyval \<Rightarrow> string option" where
  "deconstruct_abstract inverted_index =
     (if \<not> truthy inverted_index then None
      else case (case inverted_index of
                   PDict items \<Rightarrow> reconstruct items
                 | _ \<Rightarrow> Inl AttributeError) of
             Inl e \<Rightarrow> None
           | Inr r \<Rightarrow> r)"

text \<open>
  The reconstruction as the specification words it, for comparison: the array has the
  length of the maximum over all listed positions plus one.
\<close>

fun listed_positions :: "(string \<times> pyval) list \<Rightarrow> int list" where
  "listed_positions [] = []"
| "listed_positions ((word, PList indices) # rest) =
     List.map_filter as_int indices @ listed_positions rest"
| "listed_positions ((word, val) # rest) = listed_positions rest"

definition reconstruct_as_specified :: "(string \<times> pyval) list \<Rightarrow> string option" where
  "reconstruct_as_specified items =
     (case listed_positions items of
        [] \<Rightarrow> None
      | p # ps \<Rightarrow>
          Some (join_spaces (filter (\<lambda>w. w \<noteq> [])
                  (write_words items (replicate (nat (fold max ps p + 1)) [])))))"

section \<open>Retrying fetcher: \<open>enrich_paper_with_crossref\<close>\<close>

text \<open>
  What one attempt meets: a successful response whose body decodes to a JSON value, a
  response for which \<open>raise_for_status()\<close> raises \<open>HTTPStatusError\<close> with the given status
  code, a transport failure (\<open>httpx.RequestError\<close>, timeouts included), a body for which
  \<open>response.json()\<close> raises \<open>ValueError\<close>, or any other exception of class \<open>Exception\<close>.
  The environment gives the response met by each attempt, numbered from 0.
\<close>

datatype response =
    Success pyval
  | StatusError nat
  | TransportError
  | MalformedBody
  | Unexpected

text \<open>
  The body of the \<open>try\<close> block: the request, \<open>raise_for_status()\<close>, \<open>response.json()\<close>
  and \<open>data.get("message", {})\<close>, which raises \<open>AttributeError\<close> when the body is not a
  dictionary. The waiting of the rate governor and the semaphore are not modelled.
\<close>

definition try_request :: "response \<Rightarrow> exn + pyval" where
  "try_request r =
     (case r of
        Success data \<Rightarrow>
          (case data of
             PDict items \<Rightarrow> Inr (case map_of items ''message'' of Some m \<Rightarrow> m | None \<Rightarrow> PDict [])
           | _ \<Rightarrow> Inl AttributeError)
      | StatusError code \<Rightarrow> Inl (HTTPStatusError code)
      | TransportError \<Rightarrow> Inl RequestError
      | MalformedBody \<Rightarrow> Inl ValueError
      | Unexpected \<Rightarrow> Inl OtherException)"

text \<open>
  What a call of the fetcher leaves behind: the value it returns (\<open>Inr\<close>, with \<open>PNone\<close>
  for Python's \<open>None\<close>) or the exception that leaves it (\<open>Inl\<close>), the number of requests it
  made, and the backoff sleeps in order.
\<close>

record fetch_outcome =
  returned :: "exn + pyval"
  requests :: nat
  sleeps :: "real list"

definition MAX_RETRIES :: nat where
  "MAX_RETRIES = 5"

definition INITIAL_BACKOFF :: real where
  "INITIAL_BACKOFF = 2"

text \<open>
  The handlers of routers/search\_paper.py write a line with \<open>console.log\<close> of the Rich
  library before they sleep or return. Rich reads the line as console markup, and the
  line interpolates the DOI, the keyword and the text of the exception, so the call can
  raise (\<open>rich.errors.MarkupError\<close> for a closing tag that matches no open tag). A line is
  given by the values it interpolates: \<open>Log429 doi kw wait_time (attempt + 1) retries\<close>,
  \<open>LogHTTP code doi kw\<close>, \<open>LogError doi kw e attempt\<close> and
  \<open>LogUnexpected doi kw e attempt\<close>, where the attempt number of the last two identifies
  the exception object whose text is printed. The console is a parameter of the model:
  \<open>console_log line\<close> is \<open>None\<close> when the call returns and \<open>Some e\<close> when it raises \<open>e\<close>.
\<close>

datatype log_line =
    Log429 string string real nat nat
  | LogHTTP nat string string
  | LogError string string exn nat
  | LogUnexpected string string exn nat

text \<open>
  The loop \<open>for attempt in range(retries)\<close> of routers/search\_paper.py with its four
  handlers, in the order of the source; the loop running out returns \<open>None\<close>. An
  exception raised by \<open>console.log\<close> inside a handler is not caught by the other handlers
  of the same \<open>try\<close> statement: it leaves the function.
\<close>

function crossref_attempts ::
  "(log_line \<Rightarrow> exn option) \<Rightarrow> (nat \<Rightarrow> response) \<Rightarrow> nat \<Rightarrow> string \<Rightarrow> string \<Rightarrow> nat \<Rightarrow> real
   \<Rightarrow> real list \<Rightarrow> fetch_outcome" where
  "crossref_attempts console_log env retries kw d attempt delay slept =
     (if retries \<le> attempt then \<lparr>returned = Inr PNone, requests = attempt, sleeps = slept\<rparr>
      else case try_request (env attempt) of
        Inr message \<Rightarrow> \<lparr>returned = Inr message, requests = attempt + 1, sleeps = slept\<rparr>
      | Inl (HTTPStatusError code) \<Rightarrow>
          if code = 429 then
            (let wait_time = delay * (real attempt + 1)
             in case console_log (Log429 d kw wait_time (attempt + 1) retries) of
                  Some raised \<Rightarrow> \<lparr>returned = Inl raised, requests = attempt + 1, sleeps = slept\<rparr>
                | None \<Rightarrow>
                    crossref_attempts console_log env retries kw d (attempt + 1) (delay * 1.5)
                      (slept @ [wait_time]))
          else if code = 404 then \<lparr>returned = Inr PNone, requests = attempt + 1, sleeps = slept\<rparr>
          else
            (case console_log (LogHTTP code d kw) of
               Some raised \<Rightarrow> \<lparr>returned = Inl raised, requests = attempt + 1, sleeps = slept\<rparr>
             | None \<Rightarrow> \<lparr>returned = Inr PNone, requests = attempt + 1, sleeps = slept\<rparr>)
      | Inl RequestError \<Rightarrow>
          (case console_log (LogError d kw RequestError attempt) of
             Some raised \<Rightarrow> \<lparr>returned = Inl raised, requests = attempt + 1, sleeps = slept\<rparr>
           | None \<Rightarrow>
               if attempt < retries - 1 then
                 crossref_attempts console_log env retries kw d (attempt + 1) (delay * 1.5)
                   (slept @ [delay])
               else \<lparr>returned = Inr PNone, requests = attempt + 1, sleeps = slept\<rparr>)
      | Inl ValueError \<Rightarrow>
          (case console_log (LogError d kw ValueError attempt) of
             Some raised \<Rightarrow> \<lparr>returned = Inl raised, requests = attempt + 1, sleeps = slept\<rparr>
           | None \<Rightarrow>
               if attempt < retries - 1 then
                 crossref_attempts console_log env retries kw d (attempt + 1) (delay * 1.5)
                   (slept @ [delay])
               else \<lparr>returned = Inr PNone, requests = attempt + 1, sleeps = slept\<rparr>)
      | Inl e \<Rightarrow>
          (case console_log (LogUnexpected d kw e attempt) of
             Some raised \<Rightarrow> \<lparr>returned = Inl raised, requests = attempt + 1, sleeps = slept\<rparr>
           | None \<Rightarrow> \<lparr>returned = Inr PNone, requests = attempt + 1, sleeps = slept\<rparr>))"
  by pat_completeness auto
termination
  by (relation "measure (\<lambda>(console_log, env, retries, kw, d, attempt, delay, slept). retries - attempt)")
    auto

declare crossref_attempts.simps [simp del]

text \<open>
  \<open>if not doi: return None\<close>, before any request; \<open>kw\<close> is only printed in the log lines.
\<close>

definition enrich_paper_with_crossref ::
  "(log_line \<Rightarrow> exn option) \<Rightarrow> (nat \<Rightarrow> response) \<Rightarrow> string option \<Rightarrow> nat \<Rightarrow> string
   \<Rightarrow> fetch_outcome" where
  "enrich_paper_with_crossref console_log env doi' retries kw =
     (case doi' of
        None \<Rightarrow> \<lparr>returned = Inr PNone, requests = 0, sleeps = []\<rparr>
      | Some d \<Rightarrow>
          if d = [] then \<lparr>returned = Inr PNone, requests = 0, sleeps = []\<rparr>
          else crossref_attempts console_log env retries kw d 0 INITIAL_BACKOFF [])"

text \<open>
  \<open>enrich_paper_with_crossref\<close> of routers/fetch\_data.py. Its \<open>HTTPStatusError\<close> handler
  sleeps on 429 and returns on 404; for any other status neither branch is taken and the
  handler ends, so the loop goes on to the next attempt without sleeping. Its second
  handler, \<open>except Exception\<close>, sleeps and lets the loop go on. This fetcher writes no
  log line.
\<close>

function fetch_data_attempts ::
  "(nat \<Rightarrow> response) \<Rightarrow> nat \<Rightarrow> real \<Rightarrow> real list \<Rightarrow> fetch_outcome" where
  "fetch_data_attempts env attempt delay slept =
     (if MAX_RETRIES \<le> attempt then \<lparr>returned = Inr PNone, requests = attempt, sleeps = slept\<rparr>
      else case try_request (env attempt) of
        Inr message \<Rightarrow> \<lparr>returned = Inr message, requests = attempt + 1, sleeps = slept\<rparr>
      | Inl (HTTPStatusError code) \<Rightarrow>
          if code = 429 then
            fetch_data_attempts env (attempt + 1) (delay * 1.5) (slept @ [delay])
          else if code = 404 then \<lparr>returned = Inr PNone, requests = attempt + 1, sleeps = slept\<rparr>
          else fetch_data_attempts env (attempt + 1) delay slept
      | Inl e \<Rightarrow> fetch_data_attempts env (attempt + 1) (delay * 1.5) (slept @ [delay]))"
  by pat_completeness auto
termination
  by (relation "measure (\<lambda>(env, attempt, delay, slept). MAX_RETRIES - attempt)") auto

declare fetch_data_attempts.simps [simp del]

definition fetch_data_enrich_paper_with_crossref ::
  "(nat \<Rightarrow> response) \<Rightarrow> string option \<Rightarrow> fetch_outcome" where
  "fetch_data_enrich_paper_with_crossref env doi' =
     (if doi' = None \<or> doi' = Some [] then \<lparr>returned = Inr PNone, requests = 0, sleeps = []\<rparr>
      else fetch_data_attempts env 0 INITIAL_BACKOFF [])"

section \<open>Primary-source works, secondary metadata and the ranking table\<close>

text \<open>
  A discovered work as the per-work code reads it, field by field. \<open>cited_by_count\<close> is
  read with a default (\<open>work.get("cited_by_count", 0)\<close>), so a missing key and \<open>null\<close>
  differ; the other fields are read with \<open>get\<close>, for which they are the same. An entry of
  \<open>authorships\<close> is the display name of its author, or \<open>None\<close> when it has no author object.
\<close>

datatype 'a field = Missing | Null | Present 'a

record open_access =
  is_oa :: bool
  oa_url :: "string option"

datatype issn_field = IssnStr string | IssnList "string list"

record host_venue =
  hv_issn :: "issn_field option"
  issn_l :: "string option"
  display_name :: "string option"

record raw_work =
  w_title :: "string option"
  w_authorships :: "string option list"
  w_doi :: "string option"
  w_cited_by_count :: "int field"
  w_publication_year :: "int option"
  w_abstract_inverted_index :: pyval
  w_open_access :: "open_access option"
  w_host_venue :: "host_venue option"

text \<open>
  What \<open>asyncio.gather(..., return_exceptions=True)\<close> hands to the per-work code for one
  lookup: \<open>None\<close>, an exception object, the empty dictionary (a body without
  \<open>"message"\<close>), or a non-empty message.
\<close>

record crossref_message =
  cr_publisher :: "string option"
  container_title :: "string list"
  cr_ISSN :: "string list"

datatype lookup = LookupNone | LookupRaised | LookupEmpty | LookupMessage crossref_message

text \<open>A record of \<open>sjr_lookup_data\<close>, with the four keys tried for the impact factor.\<close>

record ranking_record =
  r_quartile :: "string option"
  r_h_index :: "real option"
  r_sjr :: "real option"
  r_impact_factor :: "real option"
  r_ImpactFactor :: "real option"
  r_JIF :: "real option"
  r_jif :: "real option"

text \<open>\<open>a or b\<close> on numbers that may be \<open>None\<close>.\<close>

definition py_or :: "real option \<Rightarrow> real option \<Rightarrow> real option" where
  "py_or a b = (if a \<noteq> None \<and> a \<noteq> Some 0 then a else b)"

section \<open>ISSN resolution and the per-work step of \<open>discover_and_process_single\<close>\<close>

text \<open>\<open>re.sub(r"\D", "", issn or "")\<close>\<close>

definition is_digit :: "char \<Rightarrow> bool" where
  "is_digit c = (c \<in> set ''0123456789'')"

definition clean_issn :: "string \<Rightarrow> string" where
  "clean_issn issn' = filter is_digit issn'"

text \<open>
  The candidates in the order the code collects them: the \<open>ISSN\<close> list of a non-empty
  Crossref message, then \<open>issn_l\<close> of a non-empty \<open>host_venue\<close> when it is set, then the
  venue's \<open>issn\<close> (one string, or a list).
\<close>

definition issn_candidates :: "raw_work \<Rightarrow> lookup \<Rightarrow> string list" where
  "issn_candidates work crossref_meta =
     (case crossref_meta of LookupMessage m \<Rightarrow> cr_ISSN m | _ \<Rightarrow> [])
     @ (case w_host_venue work of
          None \<Rightarrow> []
        | Some hv \<Rightarrow>
            (case issn_l hv of Some l \<Rightarrow> if l \<noteq> [] then [l] else [] | None \<Rightarrow> [])
            @ (case hv_issn hv of
                 None \<Rightarrow> []
               | Some (IssnStr s) \<Rightarrow> if s \<noteq> [] then [s] else []
               | Some (IssnList hv_issns) \<Rightarrow> hv_issns))"

text \<open>The loop \<open>for raw in issn_candidates\<close> with its \<open>break\<close>.\<close>

fun first_usable :: "string list \<Rightarrow> string option" where
  "first_usable [] = None"
| "first_usable (raw # rest) =
     (if raw \<noteq> [] then
        (let c = clean_issn raw in if c \<noteq> [] then Some c else first_usable rest)
      else first_usable rest)"

text \<open>
  The body of \<open>for work, crossref_meta in zip(...)\<close> in routers/search\_paper.py: \<open>None\<close>
  for \<open>continue\<close>, otherwise the paper appended to \<open>results\<close>.
\<close>

definition discover_and_process_single_work ::
  "(string \<Rightarrow> ranking_record option) \<Rightarrow> int \<Rightarrow> string \<Rightarrow> raw_work option \<Rightarrow> lookup \<Rightarrow> paper option" where
  "discover_and_process_single_work sjr_lookup_data current_year keyword work crossref_meta =
     (case work of
        None \<Rightarrow> None
      | Some w \<Rightarrow>
          (let oa = w_open_access w;
               publisher' = (case crossref_meta of LookupMessage m \<Rightarrow> cr_publisher m | _ \<Rightarrow> None);
               journal_title =
                 (case crossref_meta of
                    LookupMessage m \<Rightarrow> (case container_title m of [] \<Rightarrow> None | t # _ \<Rightarrow> Some t)
                  | _ \<Rightarrow> None);
               journal_title =
                 (case w_host_venue w of
                    Some hv \<Rightarrow>
                      if journal_title = None \<or> journal_title = Some [] then display_name hv
                      else journal_title
                  | None \<Rightarrow> journal_title);
               issn_clean = first_usable (issn_candidates w crossref_meta);
               r = (case issn_clean of Some c \<Rightarrow> sjr_lookup_data c | None \<Rightarrow> None);
               final_paper =
                 \<lparr>title = w_title w,
                  authors = List.map_filter id (w_authorships w),
                  doi = w_doi w,
                  citationCount =
                    (case w_cited_by_count w of Missing \<Rightarrow> Some 0 | Null \<Rightarrow> None | Present n \<Rightarrow> Some n),
                  publisher = publisher',
                  yearPublished = w_publication_year w,
                  abstract = deconstruct_abstract (w_abstract_inverted_index w),
                  isFreelyAvailable = (case oa of Some a \<Rightarrow> is_oa a | None \<Rightarrow> False),
                  downloadUrl = (case oa of Some a \<Rightarrow> oa_url a | None \<Rightarrow> None),
                  journalTitle = journal_title,
                  issn = issn_clean,
                  quartile = (case r of Some rr \<Rightarrow> r_quartile rr | None \<Rightarrow> None),
                  h_index = (case r of Some rr \<Rightarrow> r_h_index rr | None \<Rightarrow> None),
                  sjrScore = (case r of Some rr \<Rightarrow> r_sjr rr | None \<Rightarrow> None),
                  impactFactor =
                    (case r of
                       Some rr \<Rightarrow>
                         py_or (py_or (py_or (r_impact_factor rr) (r_ImpactFactor rr)) (r_JIF rr))
                           (r_jif rr)
                     | None \<Rightarrow> None),
                  sourceKeyword = keyword,
                  qualityScore = 0\<rparr>
           in Some (final_paper\<lparr>qualityScore := calculate_quality_score current_year final_paper\<rparr>)))"

section \<open>The per-work step of \<open>discover_many_keywords\<close> (service/research\_service.py)\<close>

text \<open>
  \<open>_enrich_with_sjr\<close>: only the first entry of the list is cleaned, and the ranking fields
  are set from the table when the cleaned string is non-empty and a key of it.
\<close>

definition enrich_with_sjr ::
  "(string \<Rightarrow> ranking_record option) \<Rightarrow> paper \<Rightarrow> string list \<Rightarrow> paper" where
  "enrich_with_sjr sjr_lookup_data p issn_list =
     (let cleaned = (case issn_list of [] \<Rightarrow> None | first # _ \<Rightarrow> Some (clean_issn first))
      in case (case cleaned of Some c \<Rightarrow> if c \<noteq> [] then sjr_lookup_data c else None | None \<Rightarrow> None) of
           Some rank \<Rightarrow>
             p\<lparr>issn := cleaned, quartile := r_quartile rank, h_index := r_h_index rank,
               sjrScore := r_sjr rank\<rparr>
         | None \<Rightarrow> p\<lparr>issn := cleaned, quartile := None, h_index := None, sjrScore := None\<rparr>)"

text \<open>
  The body of \<open>for work, meta in zip(works, meta_list)\<close> up to the score. The guard
  \<open>if not work or isinstance(meta, Exception) or meta is None: continue\<close> comes first. The
  dictionary built here has no \<open>impactFactor\<close> and no \<open>sourceKeyword\<close>.
\<close>

definition discover_many_keywords_work ::
  "(string \<Rightarrow> ranking_record option) \<Rightarrow> int \<Rightarrow> raw_work option \<Rightarrow> lookup \<Rightarrow> paper option" where
  "discover_many_keywords_work sjr_lookup_data current_year work meta =
     (case work of
        None \<Rightarrow> None
      | Some w \<Rightarrow>
          if meta = LookupRaised \<or> meta = LookupNone then None
          else
            (let m = (case meta of
                        LookupMessage msg \<Rightarrow> msg
                      | _ \<Rightarrow> \<lparr>cr_publisher = None, container_title = [], cr_ISSN = []\<rparr>);
                 oa = w_open_access w;
                 p = \<lparr>title = w_title w,
                      authors = List.map_filter id (w_authorships w),
                      doi = w_doi w,
                      citationCount =
                        (case w_cited_by_count w of Missing \<Rightarrow> Some 0 | Null \<Rightarrow> None | Present n \<Rightarrow> Some n),
                      publisher = cr_publisher m,
                      yearPublished = w_publication_year w,
                      abstract = deconstruct_abstract (w_abstract_inverted_index w),
                      isFreelyAvailable = (case oa of Some a \<Rightarrow> is_oa a | None \<Rightarrow> False),
                      downloadUrl = (case oa of Some a \<Rightarrow> oa_url a | None \<Rightarrow> None),
                      journalTitle = (case container_title m of [] \<Rightarrow> None | t # _ \<Rightarrow> Some t),
                      issn = None, quartile = None, h_index = None, sjrScore = None,
                      impactFactor = None, sourceKeyword = [], qualityScore = 0\<rparr>;
                 p = enrich_with_sjr sjr_lookup_data p (cr_ISSN m)
             in Some (p\<lparr>qualityScore := calc_quality_score current_year p\<rparr>)))"

section \<open>Cross-keyword deduplication\<close>

text \<open>
  A Python dictionary as the list of its items in insertion order: assigning to a key
  that is present replaces the value in place, assigning to a new key appends.
\<close>

fun dict_set :: "'k \<Rightarrow> 'v \<Rightarrow> ('k \<times> 'v) list \<Rightarrow> ('k \<times> 'v) list" where
  "dict_set k v [] = [(k, v)]"
| "dict_set k v ((k', v') # rest) =
     (if k = k' then (k, v) # rest else (k', v') # dict_set k v rest)"

text \<open>\<open>str.lower()\<close> on the code points below 256.\<close>

definition py_lower_char :: "char \<Rightarrow> char" where
  "py_lower_char c =
     (let n = (of_char c :: nat)
      in if (65 \<le> n \<and> n \<le> 90) \<or> (192 \<le> n \<and> n \<le> 222 \<and> n \<noteq> 215) then char_of (n + 32) else c)"

definition py_lower :: "string \<Rightarrow> string" where
  "py_lower s = map py_lower_char s"

definition has_abstract :: "paper \<Rightarrow> bool" where
  "has_abstract p = (abstract p \<noteq> None \<and> abstract p \<noteq> Some [])"

text \<open>
  The key of \<open>discover_many_keywords\<close>: the lower-cased, stripped DOI, else the
  lower-cased, stripped title; \<open>None\<close> when both are empty (\<open>continue\<close>).
\<close>

definition service_key :: "paper \<Rightarrow> string option" where
  "service_key p =
     (let key = py_strip (py_lower (case doi p of Some d \<Rightarrow> d | None \<Rightarrow> []));
          key = (if key = [] then py_strip (py_lower (case title p of Some t \<Rightarrow> t | None \<Rightarrow> []))
                 else key)
      in if key = [] then None else Some key)"

text \<open>
  The de-duplication at the end of the loop body of \<open>discover_many_keywords\<close>:
  "keep the better one (higher qualityScore / more complete)".
\<close>

definition discover_many_keywords_merge :: "(string \<times> paper) list \<Rightarrow> paper \<Rightarrow> (string \<times> paper) list" where
  "discover_many_keywords_merge results p =
     (case service_key p of
        None \<Rightarrow> results
      | Some key \<Rightarrow>
          (case map_of results key of
             None \<Rightarrow> dict_set key p results
           | Some existing \<Rightarrow>
               if qualityScore p > qualityScore existing
                  \<or> (has_abstract p \<and> \<not> has_abstract existing)
               then dict_set key p results
               else results))"

text \<open>
  The keys that \<open>discover_and_process_multi\<close> tests and stores: DOI strings and
  \<open>str(key)\<close> are stored, and the tuple \<open>key = (title, yearPublished)\<close> itself is what
  \<open>key not in dedup\<close> tests. \<open>tuple_str\<close> stands for \<open>str\<close> on such a tuple.
\<close>

datatype pykey = KStr string | KTuple "string option" "int option"

datatype dict_error = KeyError

definition discover_and_process_multi_step ::
  "(string option \<Rightarrow> int option \<Rightarrow> string) \<Rightarrow> (pykey \<times> paper) list \<Rightarrow> paper
   \<Rightarrow> dict_error + (pykey \<times> paper) list" where
  "discover_and_process_multi_step tuple_str dedup p =
     (if doi p = None \<or> doi p = Some [] then
        (let key = KTuple (title p) (yearPublished p);
             str_key = KStr (tuple_str (title p) (yearPublished p))
         in if map_of dedup key = None then Inr (dict_set str_key p dedup)
            else (case map_of dedup str_key of
                    None \<Rightarrow> Inl KeyError
                  | Some stored \<Rightarrow>
                      if qualityScore p > qualityScore stored then Inr (dict_set str_key p dedup)
                      else Inr dedup))
      else
        (let d = KStr (the (doi p))
         in case map_of dedup d of
              None \<Rightarrow> Inr (dict_set d p dedup)
            | Some stored \<Rightarrow>
                if qualityScore p > qualityScore stored then Inr (dict_set d p dedup)
                else Inr dedup))"

fun discover_and_process_multi_loop ::
  "(string option \<Rightarrow> int option \<Rightarrow> string) \<Rightarrow> (pykey \<times> paper) list \<Rightarrow> paper list
   \<Rightarrow> dict_error + (pykey \<times> paper) list" where
  "discover_and_process_multi_loop tuple_str dedup [] = Inr dedup"
| "discover_and_process_multi_loop tuple_str dedup (p # rest) =
     (case discover_and_process_multi_step tuple_str dedup p of
        Inl e \<Rightarrow> Inl e
      | Inr dedup' \<Rightarrow> discover_and_process_multi_loop tuple_str dedup' rest)"

text \<open>\<open>merged_results = list(dedup.values())\<close>\<close>

definition discover_and_process_multi_dedup ::
  "(string option \<Rightarrow> int option \<Rightarrow> string) \<Rightarrow> paper list \<Rightarrow> dict_error + paper list" where
  "discover_and_process_multi_dedup tuple_str all_results =
     (case discover_and_process_multi_loop tuple_str [] all_results of
        Inl e \<Rightarrow> Inl e
      | Inr dedup \<Rightarrow> Inr (map snd dedup))"

text \<open>The results dictionary of \<open>discover_many_keywords\<close> over the papers in arrival order.\<close>

definition discover_many_keywords_dedup :: "paper list \<Rightarrow> paper list" where
  "discover_many_keywords_dedup ps = map snd (foldl discover_many_keywords_merge [] ps)"

section \<open>Example inputs\<close>

text \<open>A work with a venue whose linking ISSN has no digits, and a ranking table with one journal.\<close>

definition example_work :: raw_work where
  "example_work =
     \<lparr>w_title = Some ''Graphene batteries'', w_authorships = [Some ''A. Author'', None],
      w_doi = Some ''https://doi.org/10.1/x'', w_cited_by_count = Present 12,
      w_publication_year = Some 2020,
      w_abstract_inverted_index = PDict [(''a'', PList [PInt 0]), (''b'', PList [PInt 1])],
      w_open_access = Some \<lparr>is_oa = True, oa_url = None\<rparr>,
      w_host_venue =
        Some \<lparr>hv_issn = Some (IssnList [''2041-1723'']), issn_l = Some ''n/a'',
              display_name = Some ''Venue''\<rparr>\<rparr>"

definition example_table :: "string \<Rightarrow> ranking_record option" where
  "example_table =
     [''20411723'' \<mapsto>
        \<lparr>r_quartile = Some ''Q1'', r_h_index = Some 100, r_sjr = Some 0,
         r_impact_factor = None, r_ImpactFactor = None, r_JIF = None, r_jif = None\<rparr>]"

text \<open>
  A console that raises as Rich does on the line of the example: for the DOI \<open>10.1/[/x]\<close>
  the line \<open>[red]Crossref HTTP 500[/] for DOI 10.1/[/x] (kw='')\<close> holds the closing tag
  \<open>[/x]\<close> after \<open>[/]\<close> has closed the only open tag, and \<open>rich.markup.render\<close> raises
  \<open>MarkupError\<close> ("closing tag ... doesn't match any open tag").
\<close>

definition example_console :: "log_line \<Rightarrow> exn option" where
  "example_console line =
     (case line of
        LogHTTP code d kw \<Rightarrow> if d = ''10.1/[/x]'' then Some MarkupError else None
      | _ \<Rightarrow> None)"

section \<open>Properties of the query partitioner\<close>

lemma dropWhile_all: "(\<forall>x \<in> set (dropWhile P s). P x) \<longleftrightarrow> (\<forall>x \<in> set s. P x)"
  by (induction s) auto

lemma py_strip_Nil_iff: "py_strip s = [] \<longleftrightarrow> blank s"
  by (simp add: py_strip_def blank_def list_all_iff dropWhile_eq_Nil_conv dropWhile_all)

lemma py_strip_not_blank: "py_strip s \<noteq> [] \<Longrightarrow> \<not> blank (py_strip s)"
proof -
  assume ne: "py_strip s \<noteq> []"
  define v where "v = dropWhile py_isspace (rev (dropWhile py_isspace s))"
  have s: "py_strip s = rev v" by (simp add: py_strip_def v_def)
  with ne have "v \<noteq> []" by simp
  then have "\<not> py_isspace (hd v)" unfolding v_def by (rule hd_dropWhile)
  moreover have "hd v \<in> set (py_strip s)" using \<open>v \<noteq> []\<close> s by simp
  ultimately show ?thesis by (auto simp: blank_def list_all_iff)
qed

lemma re_split_no_sep:
  assumes "\<forall>c \<in> set s. \<not> is_sep c"
  shows "re_split s = [s]"
proof -
  have h: "dropWhile (\<lambda>c. \<not> is_sep c) s = []"
    using assms by (induction s) auto
  show ?thesis by (subst re_split.simps, subst h, simp)
qed

lemma re_split_pieces: "p \<in> set (re_split s) \<Longrightarrow> set p \<subseteq> set s"
proof (induction s arbitrary: p rule: re_split.induct)
  case (1 s)
  show ?case
  proof (cases "dropWhile (\<lambda>c. \<not> is_sep c) s")
    case Nil
    with "1.prems" show ?thesis by (subst (asm) re_split.simps) simp
  next
    case (Cons c rest)
    from "1.prems" Cons
    have "p = takeWhile (\<lambda>c. \<not> is_sep c) s \<or> p \<in> set (re_split (dropWhile is_sep rest))"
      by (subst (asm) re_split.simps) simp
    then show ?thesis
    proof
      assume "p = takeWhile (\<lambda>c. \<not> is_sep c) s"
      then show ?thesis by (auto dest: set_takeWhileD)
    next
      assume "p \<in> set (re_split (dropWhile is_sep rest))"
      then have "set p \<subseteq> set (dropWhile is_sep rest)" using "1.IH" Cons by blast
      also have "\<dots> \<subseteq> set rest" by (rule set_dropWhileD [THEN subsetI])
      also have "\<dots> \<subseteq> set (dropWhile (\<lambda>c. \<not> is_sep c) s)" using Cons by auto
      also have "\<dots> \<subseteq> set s" by (rule set_dropWhileD [THEN subsetI])
      finally show ?thesis .
    qed
  qed
qed

text \<open>
  Claim C8. For every non-blank query string, \<open>split_keywords\<close> returns at least one
  keyword, no returned keyword is blank, and when the string contains no comma, semicolon
  or newline the result is exactly the one-element list holding the trimmed input.
\<close>

theorem split_keywords_nonblank:
  "\<not> blank q \<Longrightarrow>
     split_keywords q \<noteq> [] \<and>
     (\<forall>k \<in> set (split_keywords q). \<not> blank k) \<and>
     ((\<forall>c \<in> set q. \<not> is_sep c) \<longrightarrow> split_keywords q = [py_strip q])"
proof -
  assume nb: "\<not> blank q"
  have ne: "split_keywords q \<noteq> []" by (simp add: split_keywords_def Let_def)
  have q: "py_strip q \<noteq> []" using nb by (simp add: py_strip_Nil_iff)
  have ks: "\<forall>k \<in> set (split_keywords q). \<not> blank k"
    using q by (auto simp: split_keywords_def Let_def py_strip_not_blank)
  have one: "(\<forall>c \<in> set q. \<not> is_sep c) \<longrightarrow> split_keywords q = [py_strip q]"
    using q by (auto simp: split_keywords_def Let_def re_split_no_sep)
  from ne ks one show ?thesis by blast
qed

theorem split_keywords_nonblank_witness:
  "\<not> blank '' graphene '' \<and> split_keywords '' graphene '' = [''graphene'']"
  using split_keywords_nonblank [of "'' graphene ''"]
  by (simp add: blank_def py_isspace_def is_sep_def py_strip_def)

text \<open>
  Claim C10. For a blank query string (empty or whitespace only, newlines included),
  \<open>split_keywords\<close> returns neither the empty list nor an error: every piece between
  separators is blank and is filtered out, so the fallback returns the one-element list
  whose only element is the empty string.
\<close>

theorem split_keywords_blank:
  "blank q \<Longrightarrow> split_keywords q = [[]]"
proof -
  assume b: "blank q"
  have "blank p" if "p \<in> set (re_split q)" for p
    using re_split_pieces [OF that] b by (auto simp: blank_def list_all_iff)
  then have "filter (\<lambda>p. p \<noteq> [] \<and> py_strip p \<noteq> []) (re_split q) = []"
    by (auto simp: filter_empty_conv py_strip_Nil_iff)
  moreover have "py_strip q = []" using b by (simp add: py_strip_Nil_iff)
  ultimately show ?thesis by (simp add: split_keywords_def)
qed

theorem split_keywords_blank_witness:
  "blank [CHR '' '', CHR 0x0A, CHR 0x09] \<and> split_keywords [CHR '' '', CHR 0x0A, CHR 0x09] = [[]]"
  using split_keywords_blank [of "[CHR '' '', CHR 0x0A, CHR 0x09]"]
  by (simp add: blank_def py_isspace_def)

section \<open>Properties of the quality scorer\<close>

lemmas points_defs =
  sjr_points_def h_index_points_def quartile_points_def citation_points_def recency_points_def
  open_access_points_def abstract_points_def sjr_points_linear_def h_index_points_linear_def
  quartile_points_exact_def recency_points_truthy_def

lemma log10_1000: "log 10 1000 = 3" 
proof -
  have "log 10 (10 ^ 3) = 3" by (subst log_nat_power) simp_all
  then show ?thesis by simp
qed

lemma py_round2_mono: "x \<le> y \<Longrightarrow> py_round2 x \<le> py_round2 y"
proof -
  assume xy: "x \<le> y"
  define a where "a = x * 100"
  define b where "b = y * 100"
  have ab: "a \<le> b" using xy by (simp add: a_def b_def)
  then have fl: "\<lfloor>a\<rfloor> \<le> \<lfloor>b\<rfloor>" by (rule floor_mono)
  show ?thesis
  proof (cases "\<lfloor>a\<rfloor> = \<lfloor>b\<rfloor>")
    case True
    then show ?thesis using ab
      unfolding py_round2_def Let_def a_def [symmetric] b_def [symmetric]
      by (auto simp: divide_right_mono)
  next
    case False
    with fl have "\<lfloor>a\<rfloor> + 1 \<le> \<lfloor>b\<rfloor>" by simp
    then have "(of_int (\<lfloor>a\<rfloor> + 1) :: real) \<le> of_int \<lfloor>b\<rfloor>" by (simp only: of_int_le_iff)
    then show ?thesis
      unfolding py_round2_def Let_def a_def [symmetric] b_def [symmetric]
      by (auto simp: divide_right_mono)
  qed
qed

lemma py_round2_of_int: "py_round2 (of_int n) = of_int n"
  by (simp add: py_round2_def)

lemma py_round2_range:
  assumes "of_int lo \<le> x" "x \<le> of_int hi"
  shows "of_int lo \<le> py_round2 x \<and> py_round2 x \<le> of_int hi"
  using py_round2_mono [OF assms(1)] py_round2_mono [OF assms(2)]
  by (simp add: py_round2_of_int)

lemma sjr_points_range: "(\<forall>s. sjrScore p = Some s \<longrightarrow> 0 \<le> s) \<Longrightarrow> 0 \<le> sjr_points p \<and> sjr_points p \<le> 40"
  by (auto simp: sjr_points_def split: option.splits)

lemma h_index_points_range: "(\<forall>h. h_index p = Some h \<longrightarrow> 0 \<le> h) \<Longrightarrow> 0 \<le> h_index_points p \<and> h_index_points p \<le> 30"
  by (auto simp: h_index_points_def split: option.splits)

lemma quartile_scores_range: "quartile_scores q = Some v \<Longrightarrow> 0 \<le> v \<and> v \<le> 20"
  by (auto simp: quartile_scores_def split: if_splits)

lemma quartile_points_range: "0 \<le> quartile_points p \<and> quartile_points p \<le> 20"
  by (auto simp: quartile_points_def split: option.splits dest: quartile_scores_range)

lemma citation_points_range: "0 \<le> citation_points p \<and> citation_points p \<le> 30"
  by (auto simp: citation_points_def split: option.splits)

lemma recency_points_range:
  "(\<forall>y. yearPublished p = Some y \<longrightarrow> y \<le> cur) \<Longrightarrow> 0 \<le> recency_points cur p \<and> recency_points cur p \<le> 10"
  by (auto simp: recency_points_def Let_def split: option.splits)

lemma citation_points_mono:
  assumes "c1 \<le> c2"
  shows "citation_points (p\<lparr>citationCount := Some c1\<rparr>) \<le> citation_points (p\<lparr>citationCount := Some c2\<rparr>)"
proof (cases "c1 > 0")
  case True
  then have "log 10 (real_of_int c1 + 1) \<le> log 10 (real_of_int c2 + 1)"
    using assms by simp
  then have "min 30 (log 10 (real_of_int c1 + 1) * 10) \<le> min 30 (log 10 (real_of_int c2 + 1) * 10)"
    by (intro min.mono) simp_all
  then show ?thesis using True assms by (simp add: citation_points_def)
next
  case False
  then show ?thesis using citation_points_range [of "p\<lparr>citationCount := Some c2\<rparr>"]
    by (simp add: citation_points_def)
qed

lemma calculate_quality_score_mono_citations:
  assumes "c1 \<le> c2"
  shows "calculate_quality_score cur (p\<lparr>citationCount := Some c1\<rparr>)
         \<le> calculate_quality_score cur (p\<lparr>citationCount := Some c2\<rparr>)"
  unfolding calculate_quality_score_def
  apply (rule py_round2_mono)
  using citation_points_mono [OF assms, of p]
  by (simp add: sjr_points_def h_index_points_def quartile_points_def recency_points_def
      open_access_points_def abstract_points_def)

lemma calculate_quality_score_no_metrics: "calculate_quality_score cur no_metrics = 0"
  by (simp add: calculate_quality_score_def no_metrics_def py_round2_def points_defs)

lemma calculate_quality_score_range:
  assumes "\<forall>s. sjrScore p = Some s \<longrightarrow> 0 \<le> s"
    and "\<forall>h. h_index p = Some h \<longrightarrow> 0 \<le> h"
    and "\<forall>y. yearPublished p = Some y \<longrightarrow> y \<le> cur"
  shows "0 \<le> calculate_quality_score cur p \<and> calculate_quality_score cur p \<le> 140"
proof -
  let ?s = "0 + sjr_points p + h_index_points p + quartile_points p + citation_points p
                + recency_points cur p + open_access_points p + abstract_points p"
  have "0 \<le> open_access_points p \<and> open_access_points p \<le> 5"
    by (simp add: open_access_points_def)
  moreover have "0 \<le> abstract_points p \<and> abstract_points p \<le> 5"
    by (simp add: abstract_points_def split: option.splits)
  ultimately have "of_int 0 \<le> ?s \<and> ?s \<le> of_int 140"
    using sjr_points_range [OF assms(1)] h_index_points_range [OF assms(2)]
      quartile_points_range [of p] citation_points_range [of p] recency_points_range [OF assms(3)]
    by simp
  then have "of_int 0 \<le> py_round2 ?s \<and> py_round2 ?s \<le> of_int 140"
    using py_round2_range by blast
  then show ?thesis by (simp add: calculate_quality_score_def)
qed

lemma calc_quality_score_no_metrics: "calc_quality_score cur no_metrics = 0"
  by (simp add: calc_quality_score_def no_metrics_def py_round2_def points_defs)

lemma exp_minus_30: "exp (- 30 :: real) \<le> 1 / 31"
proof -
  have "1 + (30::real) \<le> exp 30" by (rule exp_ge_add_one_self)
  then have "1 / exp (30::real) \<le> 1 / 31" by (intro divide_left_mono) simp_all
  then show ?thesis by (simp add: exp_minus inverse_eq_divide)
qed

text \<open>
  Claim C2 (range, zero and monotonicity of the score). The zero and the monotonicity hold
  (\<open>calculate_quality_score_no_metrics\<close>, \<open>calculate_quality_score_mono_citations\<close>), and
  the range holds for papers published no later than the current year with non-negative
  journal metrics (\<open>calculate_quality_score_range\<close>). The recency term
  \<open>max(10 - years_old * 2, 0)\<close> is documented as "Recency (0..10 within last 5 years)",
  but a publication year after the current one makes \<open>years_old\<close> negative and the term
  exceeds 10 without bound: in 2026, a paper whose only metric is the publication year 2100
  scores 158 in both scorers, above the documented ceiling of 150.
\<close>

theorem quality_score_future_year_exceeds_150:
  "calculate_quality_score 2026 (no_metrics\<lparr>yearPublished := Some 2100\<rparr>) = 158 \<and>
   calc_quality_score 2026 (no_metrics\<lparr>yearPublished := Some 2100\<rparr>) = 158"
  by (simp add: calculate_quality_score_def calc_quality_score_def no_metrics_def py_round2_def
      points_defs)

text \<open>
  Claim C9 (the component caps sum to 140). The same recency term breaks the bound of 140
  already for a paper dated one year ahead: with every other component at its cap the
  recency term is 12, so \<open>calc_quality_score\<close> returns 142, and \<open>calculate_quality_score\<close>
  (whose SJR term only approaches 40) returns more than 140.
\<close>

theorem quality_score_next_year_exceeds_140:
  "calc_quality_score 2026
     (no_metrics\<lparr>sjrScore := Some 4, h_index := Some 200, quartile := Some ''Q1'',
        citationCount := Some 999, yearPublished := Some 2027, isFreelyAvailable := True,
        abstract := Some ''text''\<rparr>) = 142 \<and>
   140 < calculate_quality_score 2026
     (no_metrics\<lparr>sjrScore := Some 90, h_index := Some 200, quartile := Some ''q1'',
        citationCount := Some 999, yearPublished := Some 2027, isFreelyAvailable := True,
        abstract := Some ''text''\<rparr>)"
proof -
  let ?p = "no_metrics\<lparr>sjrScore := Some 90, h_index := Some 200, quartile := Some ''q1'',
        citationCount := Some 999, yearPublished := Some 2027, isFreelyAvailable := True,
        abstract := Some ''text''\<rparr>"
  have "77 / 2 \<le> sjr_points ?p" using exp_minus_30 by (simp add: sjr_points_def no_metrics_def)
  then have "281 / 2 \<le> 0 + sjr_points ?p + h_index_points ?p + quartile_points ?p
                + citation_points ?p + recency_points 2026 ?p + open_access_points ?p
                + abstract_points ?p"
    by (simp add: h_index_points_def quartile_points_def citation_points_def recency_points_def
        open_access_points_def abstract_points_def no_metrics_def quartile_scores_def log10_1000
        py_upper_def py_upper_char_def)
  from py_round2_mono [OF this]
  have a: "140 < calculate_quality_score 2026 ?p"
    by (simp add: calculate_quality_score_def py_round2_def)
  have b: "calc_quality_score 2026
     (no_metrics\<lparr>sjrScore := Some 4, h_index := Some 200, quartile := Some ''Q1'',
        citationCount := Some 999, yearPublished := Some 2027, isFreelyAvailable := True,
        abstract := Some ''text''\<rparr>) = 142"
    by (simp add: calc_quality_score_def no_metrics_def py_round2_def quartile_scores_def
        log10_1000 points_defs)
  from a b show ?thesis by simp
qed

section \<open>Properties of the abstract reconstruction\<close>

lemma deconstruct_abstract_falsy: "\<not> truthy inverted_index \<Longrightarrow> deconstruct_abstract inverted_index = None"
  by (simp add: deconstruct_abstract_def)

lemma deconstruct_abstract_not_dict:
  "(\<And>items. inverted_index \<noteq> PDict items) \<Longrightarrow> deconstruct_abstract inverted_index = None"
  by (cases inverted_index) (auto simp: deconstruct_abstract_def)

lemma deconstruct_abstract_example:
  "deconstruct_abstract (PDict [(''a'', PList [PInt 0]), (''b'', PList [PInt 1])]) = Some ''a b''"
  by code_simp

text \<open>
  Claim C3 (reconstruction sizes the array by the maximum position over all entries and
  writes every word into each of its listed positions). The code takes the maximum over
  the first position of each word only (\<open>val[0]\<close>), and the guard
  \<open>index < len(word_list)\<close> then drops every later occurrence that lies beyond it. For the
  index of "to be or not to be" the code returns "to be or not", where the reconstruction
  as specified returns the whole text. The absent, empty and non-dictionary cases
  (\<open>deconstruct_abstract_falsy\<close>, \<open>deconstruct_abstract_not_dict\<close>) and the two-word example
  (\<open>deconstruct_abstract_example\<close>) are as the claim says.
\<close>

theorem deconstruct_abstract_drops_repeated_words:
  "deconstruct_abstract
     (PDict [(''to'', PList [PInt 0, PInt 4]), (''be'', PList [PInt 1, PInt 5]),
             (''or'', PList [PInt 2]), (''not'', PList [PInt 3])]) = Some ''to be or not'' \<and>
   reconstruct_as_specified
     [(''to'', PList [PInt 0, PInt 4]), (''be'', PList [PInt 1, PInt 5]),
      (''or'', PList [PInt 2]), (''not'', PList [PInt 3])] = Some ''to be or not to be''"
  by code_simp

section \<open>Properties of the retrying fetcher\<close>

lemma crossref_attempts_terminal_status:
  assumes "attempt < retries" and "env attempt = StatusError code" and "code \<noteq> 429"
    and "code = 404 \<or> console_log (LogHTTP code d kw) = None"
  shows "crossref_attempts console_log env retries kw d attempt delay slept
         = \<lparr>returned = Inr PNone, requests = attempt + 1, sleeps = slept\<rparr>"
  using assms by (subst crossref_attempts.simps) (auto simp: try_request_def)

lemma enrich_paper_with_crossref_terminal_status:
  assumes "d \<noteq> []" and "0 < retries" and "env 0 = StatusError code" and "code \<noteq> 429"
    and "code = 404 \<or> console_log (LogHTTP code d kw) = None"
  shows "enrich_paper_with_crossref console_log env (Some d) retries kw
         = \<lparr>returned = Inr PNone, requests = 1, sleeps = []\<rparr>"
  using assms
    crossref_attempts_terminal_status [of 0 retries env code console_log d kw INITIAL_BACKOFF "[]"]
  by (simp add: enrich_paper_with_crossref_def)

lemma crossref_attempts_log_raises:
  assumes "attempt < retries" and "env attempt = StatusError code" and "code \<noteq> 429"
    and "code \<noteq> 404" and "console_log (LogHTTP code d kw) = Some raised"
  shows "crossref_attempts console_log env retries kw d attempt delay slept
         = \<lparr>returned = Inl raised, requests = attempt + 1, sleeps = slept\<rparr>"
  using assms by (subst crossref_attempts.simps) (simp add: try_request_def)

lemma crossref_attempts_returns:
  assumes "\<forall>line. console_log line = None"
  shows "\<exists>v. returned (crossref_attempts console_log env retries kw d attempt delay slept) = Inr v"
  using assms
proof (induction console_log env retries kw d attempt delay slept rule: crossref_attempts.induct)
  case (1 console_log env retries kw d attempt delay slept)
  from "1.prems" have quiet: "console_log = (\<lambda>line. None)" by auto
  show ?case
    apply (subst crossref_attempts.simps)
    using 1 quiet by (auto simp: Let_def split: sum.splits exn.splits)
qed

lemma crossref_attempts_failures:
  assumes "\<forall>line. console_log line = None" and "\<forall>i<retries. isl (try_request (env i))"
  shows "returned (crossref_attempts console_log env retries kw d attempt delay slept) = Inr PNone"
  using assms
proof (induction console_log env retries kw d attempt delay slept rule: crossref_attempts.induct)
  case (1 console_log env retries kw d attempt delay slept)
  show ?case
  proof (cases "retries \<le> attempt")
    case True
    then show ?thesis by (subst crossref_attempts.simps) simp
  next
    case False
    with "1.prems" have "isl (try_request (env attempt))" by simp
    then obtain e where e: "try_request (env attempt) = Inl e" by (auto simp: isl_def)
    from "1.prems" have quiet: "console_log = (\<lambda>line. None)" by auto
    show ?thesis
      apply (subst crossref_attempts.simps)
      using 1 e False quiet by (auto simp: Let_def split: exn.splits)
  qed
qed

lemma enrich_paper_with_crossref_returns_when_logging_succeeds:
  assumes "\<forall>line. console_log line = None"
  shows "(\<exists>v. returned (enrich_paper_with_crossref console_log env doi' retries kw) = Inr v) \<and>
         ((\<forall>i<retries. isl (try_request (env i))) \<longrightarrow>
            returned (enrich_paper_with_crossref console_log env doi' retries kw) = Inr PNone)"
  using crossref_attempts_returns [OF assms, of env retries kw _ 0 INITIAL_BACKOFF "[]"]
    crossref_attempts_failures [OF assms, of retries env kw _ 0 INITIAL_BACKOFF "[]"]
  by (auto simp: enrich_paper_with_crossref_def split: option.splits)

lemma fetch_data_attempts_returns:
  "\<exists>v. returned (fetch_data_attempts env attempt delay slept) = Inr v"
proof (induction env attempt delay slept rule: fetch_data_attempts.induct)
  case (1 env attempt delay slept)
  show ?case
    apply (subst fetch_data_attempts.simps)
    using 1 by (auto split: sum.splits exn.splits)
qed

lemma fetch_data_attempts_failures:
  "\<forall>i<MAX_RETRIES. isl (try_request (env i)) \<Longrightarrow>
   returned (fetch_data_attempts env attempt delay slept) = Inr PNone"
proof (induction env attempt delay slept rule: fetch_data_attempts.induct)
  case (1 env attempt delay slept)
  show ?case
  proof (cases "MAX_RETRIES \<le> attempt")
    case True
    then show ?thesis by (subst fetch_data_attempts.simps) simp
  next
    case False
    with "1.prems" have "isl (try_request (env attempt))" by simp
    then obtain e where e: "try_request (env attempt) = Inl e" by (auto simp: isl_def)
    show ?thesis
      apply (subst fetch_data_attempts.simps)
      using 1 e False by (auto split: exn.splits)
  qed
qed

text \<open>
  Claim C4 (an HTTP status error other than 429 and 404 ends the fetch at once). The
  fetcher of routers/search\_paper.py does so (\<open>enrich_paper_with_crossref_terminal_status\<close>,
  which covers 404 as well; for the other codes the handler first writes its log line). The fetcher of routers/fetch\_data.py does not: a response
  with status 500 matches neither branch of its handler and the loop makes the next
  request. Against a source that always answers 500 it makes all five requests, and when
  the second request succeeds it returns that payload.
\<close>

theorem fetch_data_retries_other_status_errors:
  "fetch_data_enrich_paper_with_crossref (\<lambda>i. StatusError 500) (Some ''10.1/x'')
     = \<lparr>returned = Inr PNone, requests = 5, sleeps = []\<rparr> \<and>
   fetch_data_enrich_paper_with_crossref
     (\<lambda>i. if i = 0 then StatusError 500
          else Success (PDict [(''message'', PDict [(''publisher'', PStr ''P'')])]))
     (Some ''10.1/x'')
     = \<lparr>returned = Inr (PDict [(''publisher'', PStr ''P'')]), requests = 2, sleeps = []\<rparr>"
  by code_simp

lemma fetch_data_enrich_paper_with_crossref_never_raises:
  "(\<exists>v. returned (fetch_data_enrich_paper_with_crossref env doi') = Inr v) \<and>
   ((\<forall>i<MAX_RETRIES. isl (try_request (env i))) \<longrightarrow>
      returned (fetch_data_enrich_paper_with_crossref env doi') = Inr PNone)"
  using fetch_data_attempts_returns [of env 0 INITIAL_BACKOFF "[]"]
    fetch_data_attempts_failures [of env 0 INITIAL_BACKOFF "[]"]
  by (simp add: fetch_data_enrich_paper_with_crossref_def)

text \<open>
  Claim C6 (the fetcher never lets an exception past its boundary, for every DOI and every
  sequence of responses). The fetcher of routers/fetch\_data.py never does
  (\<open>fetch_data_enrich_paper_with_crossref_never_raises\<close>), and the fetcher of
  routers/search\_paper.py returns a value, \<open>None\<close> when every attempt fails, as long as its
  log calls return (\<open>enrich_paper_with_crossref_returns_when_logging_succeeds\<close>). But its
  handlers call \<open>console.log\<close> before they return, and an exception raised there, inside
  an \<open>except\<close> block, leaves the function: whenever the console raises on the line of the
  handler for an HTTP status other than 429 and 404, the fetcher raises that exception
  after its first request. Rich raises \<open>MarkupError\<close> on the line for the DOI \<open>10.1/[/x]\<close>.
\<close>

theorem crossref_log_failure_escapes:
  "d \<noteq> [] \<and> 0 < retries \<and> env 0 = StatusError code \<and> code \<noteq> 429 \<and> code \<noteq> 404 \<and>
   console_log (LogHTTP code d kw) = Some raised \<longrightarrow>
     enrich_paper_with_crossref console_log env (Some d) retries kw
       = \<lparr>returned = Inl raised, requests = 1, sleeps = []\<rparr>"
proof
  assume h: "d \<noteq> [] \<and> 0 < retries \<and> env 0 = StatusError code \<and> code \<noteq> 429 \<and> code \<noteq> 404 \<and>
    console_log (LogHTTP code d kw) = Some raised"
  then have "crossref_attempts console_log env retries kw d 0 INITIAL_BACKOFF []
      = \<lparr>returned = Inl raised, requests = 0 + 1, sleeps = []\<rparr>"
    using crossref_attempts_log_raises [of 0 retries env code console_log d kw raised]
    by blast
  with h show "enrich_paper_with_crossref console_log env (Some d) retries kw
       = \<lparr>returned = Inl raised, requests = 1, sleeps = []\<rparr>"
    by (simp add: enrich_paper_with_crossref_def)
qed

theorem crossref_log_failure_escapes_witness:
  "enrich_paper_with_crossref example_console (\<lambda>i. StatusError 500) (Some ''10.1/[/x]'') 5 []
     = \<lparr>returned = Inl MarkupError, requests = 1, sleeps = []\<rparr>"
  using crossref_log_failure_escapes
    [of "''10.1/[/x]''" 5 "\<lambda>i. StatusError 500" 500 example_console "[]" MarkupError]
  by (simp add: example_console_def)

section \<open>Properties of ISSN resolution and of the per-work steps\<close>

lemma clean_issn_Nil [simp]: "clean_issn [] = []"
  by (simp add: clean_issn_def)





text \<open>
  Claim C5, as the code has it. In \<open>discover_and_process_single\<close> every non-empty work is
  emitted whatever its lookup returned, and when the lookup returned no message the
  publisher is absent and journal title and ISSN come from the work's \<open>host_venue\<close> alone.
  In \<open>discover_many_keywords\<close> the guard \<open>meta is None\<close> (or an exception object) skips the
  work.
\<close>

theorem failed_lookup_still_emitted:
  "(\<exists>p. discover_and_process_single_work tbl cur kw (Some w) meta = Some p \<and>
        title p = w_title w \<and> doi p = w_doi w \<and> yearPublished p = w_publication_year w \<and>
        abstract p = deconstruct_abstract (w_abstract_inverted_index w) \<and> sourceKeyword p = kw \<and>
        ((\<forall>m. meta \<noteq> LookupMessage m) \<longrightarrow>
           publisher p = None \<and>
           journalTitle p = (case w_host_venue w of Some hv \<Rightarrow> display_name hv | None \<Rightarrow> None) \<and>
           issn p = first_usable (issn_candidates w LookupNone))) \<and>
   discover_many_keywords_work tbl cur (Some w) LookupNone = None \<and>
   discover_many_keywords_work tbl cur (Some w) LookupRaised = None"
proof -
  have "issn_candidates w meta = issn_candidates w LookupNone" if "\<forall>m. meta \<noteq> LookupMessage m"
    using that by (cases meta) (simp_all add: issn_candidates_def)
  then have a: "\<exists>p. discover_and_process_single_work tbl cur kw (Some w) meta = Some p \<and>
        title p = w_title w \<and> doi p = w_doi w \<and> yearPublished p = w_publication_year w \<and>
        abstract p = deconstruct_abstract (w_abstract_inverted_index w) \<and> sourceKeyword p = kw \<and>
        ((\<forall>m. meta \<noteq> LookupMessage m) \<longrightarrow>
           publisher p = None \<and>
           journalTitle p = (case w_host_venue w of Some hv \<Rightarrow> display_name hv | None \<Rightarrow> None) \<and>
           issn p = first_usable (issn_candidates w LookupNone))"
    by (cases meta) (auto simp: discover_and_process_single_work_def Let_def split: option.splits)
  have b: "discover_many_keywords_work tbl cur (Some w) LookupNone = None"
    and c: "discover_many_keywords_work tbl cur (Some w) LookupRaised = None"
    by (simp_all add: discover_many_keywords_work_def)
  from a b c show ?thesis by blast
qed

theorem failed_lookup_still_emitted_witness:
  "\<exists>p. discover_and_process_single_work example_table 2026 ''graphene'' (Some example_work) LookupNone
          = Some p \<and>
       title p = Some ''Graphene batteries'' \<and> publisher p = None \<and>
       journalTitle p = Some ''Venue'' \<and> issn p = Some ''20411723''"
  using failed_lookup_still_emitted [of example_table 2026 "''graphene''" example_work LookupNone]
  by (auto simp: example_work_def issn_candidates_def clean_issn_def is_digit_def)

text \<open>
  The claim C5 as stated fails on \<open>discover_many_keywords\<close>: a work with a title whose
  lookup returned \<open>None\<close> is skipped, not emitted.
\<close>

theorem discover_many_keywords_drops_failed_lookup:
  "w_title example_work = Some ''Graphene batteries'' \<and>
   discover_many_keywords_work example_table 2026 (Some example_work) LookupNone = None"
  by (simp add: discover_many_keywords_work_def example_work_def)

section \<open>Properties of the deduplication\<close>

lemma dedup_multi_pair:
  assumes "doi a = Some d" and "doi b = Some d" and "d \<noteq> []"
  shows "discover_and_process_multi_dedup ts [a, b]
         = Inr [if qualityScore b > qualityScore a then b else a]"
  using assms
  by (simp add: discover_and_process_multi_dedup_def discover_and_process_multi_step_def Let_def)

lemma dedup_service_pair:
  assumes "service_key a = Some k" and "service_key b = Some k"
  shows "discover_many_keywords_dedup [a, b]
         = [if qualityScore b > qualityScore a \<or> (has_abstract b \<and> \<not> has_abstract a) then b else a]"
  using assms
  by (simp add: discover_many_keywords_dedup_def discover_many_keywords_merge_def)

text \<open>
  Claim C1, as the code has it. \<open>discover_many_keywords\<close> replaces the stored record
  exactly when the incoming one has a strictly higher score, or has an abstract while
  the stored one has none, whatever the scores. \<open>discover_and_process_multi\<close> replaces a
  record stored under a DOI exactly when the incoming one has a strictly higher score.
  Of two records sharing a DOI with scores 80 and 95 the second survives in
  \<open>discover_and_process_multi\<close> in either order of arrival, and in \<open>discover_many_keywords\<close>
  when the score-80 record is not the only one with an abstract.
\<close>

theorem dedup_keep_best:
  "(service_key p = Some k \<and> map_of results k = Some stored \<longrightarrow>
      discover_many_keywords_merge results p
        = (if qualityScore p > qualityScore stored \<or> (has_abstract p \<and> \<not> has_abstract stored)
           then dict_set k p results else results)) \<and>
   (doi p = Some d \<and> d \<noteq> [] \<and> map_of dedup (KStr d) = Some stored' \<longrightarrow>
      discover_and_process_multi_step ts dedup p
        = Inr (if qualityScore p > qualityScore stored' then dict_set (KStr d) p dedup else dedup)) \<and>
   (doi a = Some d \<and> doi b = Some d \<and> d \<noteq> [] \<and> qualityScore a = 80 \<and> qualityScore b = 95 \<longrightarrow>
      discover_and_process_multi_dedup ts [a, b] = Inr [b] \<and>
      discover_and_process_multi_dedup ts [b, a] = Inr [b]) \<and>
   (service_key a = Some k \<and> service_key b = Some k \<and> qualityScore a = 80 \<and> qualityScore b = 95 \<and>
    (has_abstract a \<longrightarrow> has_abstract b) \<longrightarrow>
      discover_many_keywords_dedup [a, b] = [b] \<and> discover_many_keywords_dedup [b, a] = [b])"
proof -
  have s1: "service_key p = Some k \<and> map_of results k = Some stored \<longrightarrow>
      discover_many_keywords_merge results p
        = (if qualityScore p > qualityScore stored \<or> (has_abstract p \<and> \<not> has_abstract stored)
           then dict_set k p results else results)"
    by (simp add: discover_many_keywords_merge_def)
  have s2: "doi p = Some d \<and> d \<noteq> [] \<and> map_of dedup (KStr d) = Some stored' \<longrightarrow>
      discover_and_process_multi_step ts dedup p
        = Inr (if qualityScore p > qualityScore stored' then dict_set (KStr d) p dedup else dedup)"
    by (simp add: discover_and_process_multi_step_def Let_def)
  have s3: "doi a = Some d \<and> doi b = Some d \<and> d \<noteq> [] \<and> qualityScore a = 80 \<and> qualityScore b = 95 \<longrightarrow>
      discover_and_process_multi_dedup ts [a, b] = Inr [b] \<and>
      discover_and_process_multi_dedup ts [b, a] = Inr [b]"
    using dedup_multi_pair [of a d b ts] dedup_multi_pair [of b d a ts] by simp
  have s4: "service_key a = Some k \<and> service_key b = Some k \<and> qualityScore a = 80 \<and> qualityScore b = 95 \<and>
    (has_abstract a \<longrightarrow> has_abstract b) \<longrightarrow>
      discover_many_keywords_dedup [a, b] = [b] \<and> discover_many_keywords_dedup [b, a] = [b]"
    using dedup_service_pair [of a k b] dedup_service_pair [of b k a] by auto
  from s1 s2 s3 s4 show ?thesis by blast
qed

theorem dedup_keep_best_witness:
  "discover_and_process_multi_dedup (\<lambda>t y. ''key'')
     [no_metrics\<lparr>doi := Some ''10.1/x'', qualityScore := 80\<rparr>,
      no_metrics\<lparr>doi := Some ''10.1/x'', abstract := Some ''text'', qualityScore := 95\<rparr>]
     = Inr [no_metrics\<lparr>doi := Some ''10.1/x'', abstract := Some ''text'', qualityScore := 95\<rparr>] \<and>
   discover_many_keywords_dedup
     [no_metrics\<lparr>doi := Some ''10.1/x'', abstract := Some ''text'', qualityScore := 95\<rparr>,
      no_metrics\<lparr>doi := Some ''10.1/x'', qualityScore := 80\<rparr>]
     = [no_metrics\<lparr>doi := Some ''10.1/x'', abstract := Some ''text'', qualityScore := 95\<rparr>]"
proof -
  let ?a = "no_metrics\<lparr>doi := Some ''10.1/x'', qualityScore := 80\<rparr>"
  let ?b = "no_metrics\<lparr>doi := Some ''10.1/x'', abstract := Some ''text'', qualityScore := 95\<rparr>"
  have ka: "service_key ?a = Some ''10.1/x''" by code_simp
  have kb: "service_key ?b = Some ''10.1/x''" by code_simp
  have hb: "has_abstract ?b" by (simp add: has_abstract_def)
  from dedup_keep_best [of ?a "''10.1/x''" "[]" ?a "''10.1/x''" "[]" ?a "\<lambda>t y. ''key''" ?a ?b]
    ka kb hb
  show ?thesis by (simp add: no_metrics_def)
qed

text \<open>
  The claim C1 as stated fails on \<open>discover_many_keywords\<close>: a stored record with score
  95 and no abstract is replaced by an incoming record with the same DOI, score 80 and an
  abstract, so the score-80 record survives.
\<close>

theorem discover_many_keywords_keeps_lower_score:
  "service_key (no_metrics\<lparr>doi := Some ''10.1/x'', qualityScore := 95\<rparr>)
     = service_key (no_metrics\<lparr>doi := Some ''10.1/x'', abstract := Some ''text'', qualityScore := 80\<rparr>) \<and>
   discover_many_keywords_dedup
     [no_metrics\<lparr>doi := Some ''10.1/x'', qualityScore := 95\<rparr>,
      no_metrics\<lparr>doi := Some ''10.1/x'', abstract := Some ''text'', qualityScore := 80\<rparr>]
     = [no_metrics\<lparr>doi := Some ''10.1/x'', abstract := Some ''text'', qualityScore := 80\<rparr>]"
proof -
  let ?a = "no_metrics\<lparr>doi := Some ''10.1/x'', qualityScore := 95\<rparr>"
  let ?b = "no_metrics\<lparr>doi := Some ''10.1/x'', abstract := Some ''text'', qualityScore := 80\<rparr>"
  have ka: "service_key ?a = Some ''10.1/x''" by code_simp
  have kb: "service_key ?b = Some ''10.1/x''" by code_simp
  have "discover_many_keywords_dedup [?a, ?b] = [?b]"
    using ka kb
    by (simp add: discover_many_keywords_dedup_def discover_many_keywords_merge_def
        has_abstract_def no_metrics_def)
  with ka kb show ?thesis by simp
qed

end
